theory Spec2Isabelle
  imports Main "HOL-Library.AList" "HOL-Library.Multiset"
begin

section \<open>Text, numbers and the platform\<close>

text \<open>
  The repository holds two programs: \<^verbatim>\<open>pdf_processor.py\<close> (the earlier scanner, whose
  functions carry the suffix \<open>_v1\<close> below) and \<^verbatim>\<open>pdf_processor_v6.py\<close> (the scanner
  with resume, dedup and a writer thread, whose functions keep their names).

  A Python \<^verbatim>\<open>str\<close> is modelled as a \<open>string\<close> holding its UTF-8 bytes, so the Chinese
  literals of the source are spelled byte by byte. Python's integers are \<open>int\<close>.
\<close>

text \<open>A raised instance of \<^verbatim>\<open>Exception\<close>, with the text that \<^verbatim>\<open>str(e)\<close> gives.\<close>

datatype exn = Exn string

fun str_exn :: "exn \<Rightarrow> string" where
  "str_exn (Exn m) = m"

definition digit :: "nat \<Rightarrow> char" where
  "digit d = ''0123456789'' ! d"

text \<open>\<^verbatim>\<open>str(n)\<close> for a Python integer: decimal digits, with a minus sign when negative.\<close>

fun str_nat :: "nat \<Rightarrow> string" where
  "str_nat n = (if n < 10 then [digit n] else str_nat (n div 10) @ [digit (n mod 10)])"

declare str_nat.simps [simp del]

definition str_int :: "int \<Rightarrow> string" where
  "str_int i = (if i < 0 then ''-'' @ str_nat (nat (- i)) else str_nat (nat i))"

definition str_bool :: "bool \<Rightarrow> string" where
  "str_bool b = (if b then ''True'' else ''False'')"

text \<open>
  The two floats of the programs are results of \<^verbatim>\<open>round(x, k)\<close>, so each is a decimal with
  \<open>k\<close> places; it is kept as the integer \<open>q\<close> with value \<open>q / 10 ^ k\<close>. \<open>str_float k q\<close> is
  the text Python prints for it (digits, a point, the fraction without trailing zeros but
  with at least one digit), valid below \<^verbatim>\<open>1e16\<close> where Python does not switch to an exponent.
\<close>

definition str_float :: "nat \<Rightarrow> int \<Rightarrow> string" where
  "str_float k q =
     (let a = nat \<bar>q\<bar>;
          whole = a div 10 ^ k;
          ds = str_nat (a mod 10 ^ k);
          padded = replicate (k - length ds) (CHR ''0'') @ ds;
          frac = rev (dropWhile (\<lambda>c. c = CHR ''0'') (rev padded))
      in (if q < 0 then ''-'' else []) @ str_nat whole @ ''.'' @ (if frac = [] then ''0'' else frac))"

text \<open>Rounding a quotient of integers to the nearest integer, ties to the even one.\<close>

definition round_half_even :: "int \<Rightarrow> int \<Rightarrow> int" where
  "round_half_even a b =
     (let q = a div b; r = a mod b
      in if 2 * r < b then q else if b < 2 * r then q + 1 else if even q then q else q + 1)"

text \<open>
  \<^verbatim>\<open>round(file_size_bytes / (1024 * 1024), 2)\<close>, in hundredths of a MiB. The division by a
  power of two is exact in a double for sizes below \<open>2 ^ 53\<close>, and \<^verbatim>\<open>round\<close> on a float rounds
  its exact value half to even.
\<close>

definition round2_mib :: "int \<Rightarrow> int" where
  "round2_mib size_bytes = round_half_even (size_bytes * 100) (1024 * 1024)"

text \<open>
  The library functions that depend on the operating system: \<^verbatim>\<open>os.path.normcase\<close> and
  \<^verbatim>\<open>str(pathlib.Path(s))\<close>.
\<close>

record platform =
  normcase :: "string \<Rightarrow> string"
  path_str :: "string \<Rightarrow> string"

fun split_on :: "char \<Rightarrow> string \<Rightarrow> string list" where
  "split_on sep [] = [[]]"
| "split_on sep (c # cs) =
     (if c = sep then [] # split_on sep cs
      else (case split_on sep cs of [] \<Rightarrow> [[c]] | w # ws \<Rightarrow> (c # w) # ws))"

fun join :: "string \<Rightarrow> string list \<Rightarrow> string" where
  "join sep [] = []"
| "join sep [x] = x"
| "join sep (x # y # zs) = x @ sep @ join sep (y # zs)"

text \<open>
  On POSIX \<^verbatim>\<open>normcase\<close> returns its argument, and \<^verbatim>\<open>pathlib\<close> keeps a leading \<^verbatim>\<open>/\<close> (or
  exactly two), drops empty and \<^verbatim>\<open>.\<close> components and prints \<^verbatim>\<open>.\<close> for the empty path.
\<close>

definition posix_root :: "string \<Rightarrow> string" where
  "posix_root s =
     (if take 2 s = ''//'' \<and> take 3 s \<noteq> ''///'' then ''//''
      else if take 1 s = ''/'' then ''/'' else [])"

definition posix_path_str :: "string \<Rightarrow> string" where
  "posix_path_str s =
     (let root = posix_root s;
          parts = filter (\<lambda>c. c \<noteq> [] \<and> c \<noteq> ''.'') (split_on (CHR ''/'') s)
      in if root = [] \<and> parts = [] then ''.'' else root @ join ''/'' parts)"

definition posix :: platform where
  "posix = \<lparr>normcase = (\<lambda>s. s), path_str = posix_path_str\<rparr>"

section \<open>The file system and the inspection library\<close>

text \<open>
  What \<^verbatim>\<open>fitz.open\<close> returns: \<^verbatim>\<open>is_encrypted\<close>, and the page count
  (\<^verbatim>\<open>doc.page_count\<close>, \<^verbatim>\<open>len(doc)\<close>), which reads the document and may raise.
\<close>

record doc =
  is_encrypted :: bool
  page_count :: "exn + int"

text \<open>
  The outside world of one classification: \<^verbatim>\<open>Path.exists\<close>; \<^verbatim>\<open>Path.stat().st_size\<close> and
  \<^verbatim>\<open>fitz.open\<close>, each of which may raise; and the wall-clock time a call of the worker
  took, as \<^verbatim>\<open>round(seconds, 3)\<close> in milliseconds.
\<close>

record fs =
  path_exists :: "string \<Rightarrow> bool"
  st_size :: "string \<Rightarrow> exn + int"
  fitz_open :: "string \<Rightarrow> exn + doc"
  elapsed :: "string \<Rightarrow> int"

section \<open>Classification of one file\<close>

definition PAGE_COUNT_THRESHOLD :: int where
  "PAGE_COUNT_THRESHOLD = 100"

definition FILE_SIZE_THRESHOLD_BYTES :: int where
  "FILE_SIZE_THRESHOLD_BYTES = 10 * 1024 * 1024"

text \<open>The two category letters and the f-string \<^verbatim>\<open>f"{page_cat}-{size_cat}"\<close>.\<close>

definition page_cat :: "int \<Rightarrow> string" where
  "page_cat n = (if n > PAGE_COUNT_THRESHOLD then ''L'' else ''S'')"

definition size_cat :: "int \<Rightarrow> string" where
  "size_cat size_bytes = (if size_bytes > FILE_SIZE_THRESHOLD_BYTES then ''L'' else ''S'')"

definition category_of :: "int \<Rightarrow> int \<Rightarrow> string" where
  "category_of n size_bytes = page_cat n @ ''-'' @ size_cat size_bytes"

subsection \<open>\<^verbatim>\<open>pdf_processor.py\<close>\<close>

record info_v1 =
  file_path :: string
  file_size_bytes :: int
  can_open :: bool
  page_count :: int
  processing_time :: int
  error_message :: string
  category :: string

text \<open>The message for a file below 100 bytes: four Chinese characters, then \<^verbatim>\<open> (too small)\<close>.\<close>

definition too_small :: string where
  "too_small = [CHR 0xE6, CHR 0x96, CHR 0x87, CHR 0xE4, CHR 0xBB, CHR 0xB6,
                CHR 0xE8, CHR 0xBF, CHR 0x87, CHR 0xE5, CHR 0xB0, CHR 0x8F] @ '' (too small)''"

text \<open>The message for an encrypted document: the Chinese word for "encrypted", then \<^verbatim>\<open>PDF\<close>.\<close>

definition encrypted_pdf :: string where
  "encrypted_pdf = [CHR 0xE5, CHR 0x8A, CHR 0xA0, CHR 0xE5, CHR 0xAF, CHR 0x86] @ ''PDF''"

text \<open>
  The worker. Every return and every exception passes the \<^verbatim>\<open>finally\<close> block, which sets
  \<^verbatim>\<open>processing_time\<close>; \<^verbatim>\<open>except Exception as e\<close> stores \<^verbatim>\<open>str(e)\<close>.
\<close>

definition process_single_pdf_v1 :: "platform \<Rightarrow> fs \<Rightarrow> string \<Rightarrow> info_v1" where
  "process_single_pdf_v1 pl w pdf_path0 =
     (let pdf_path = path_str pl pdf_path0;
          info = \<lparr>info_v1.file_path = pdf_path, file_size_bytes = 0, can_open = False,
                  page_count = 0, processing_time = 0, error_message = [],
                  category = ''N/A''\<rparr>;
          finally = (\<lambda>i. i\<lparr>processing_time := elapsed w pdf_path\<rparr>)
      in case st_size w pdf_path of
           Inl e \<Rightarrow> finally (info\<lparr>error_message := str_exn e\<rparr>)
         | Inr size_bytes \<Rightarrow>
             (let info = info\<lparr>file_size_bytes := size_bytes\<rparr>
              in if size_bytes < 100 then finally (info\<lparr>error_message := too_small\<rparr>)
                 else (case fitz_open w pdf_path of
                         Inl e \<Rightarrow> finally (info\<lparr>error_message := str_exn e\<rparr>)
                       | Inr d \<Rightarrow>
                           (if is_encrypted d
                            then finally (info\<lparr>error_message := encrypted_pdf\<rparr>)
                            else (case doc.page_count d of
                                    Inl e \<Rightarrow> finally (info\<lparr>error_message := str_exn e\<rparr>)
                                  | Inr n \<Rightarrow>
                                      finally (info\<lparr>info_v1.page_count := n, can_open := True,
                                        info_v1.category := category_of n size_bytes\<rparr>))))))"

subsection \<open>\<^verbatim>\<open>pdf_processor_v6.py\<close>\<close>

record info =
  file_path :: string
  page_count :: int
  file_size_mb :: int
  category :: string

text \<open>
  The worker of the later program: no size check, no encryption check and no error
  message; \<^verbatim>\<open>except Exception: pass\<close> returns what was filled in so far.
\<close>

definition process_single_pdf :: "platform \<Rightarrow> fs \<Rightarrow> string \<Rightarrow> info" where
  "process_single_pdf pl w pdf_path_str =
     (let pdf_path = path_str pl pdf_path_str;
          info = \<lparr>file_path = pdf_path, page_count = 0, file_size_mb = 0, category = ''N/A''\<rparr>
      in case st_size w pdf_path of
           Inl e \<Rightarrow> info
         | Inr size_bytes \<Rightarrow>
             (let info = info\<lparr>file_size_mb := round2_mib size_bytes\<rparr>
              in case fitz_open w pdf_path of
                   Inl e \<Rightarrow> info
                 | Inr d \<Rightarrow>
                     (case doc.page_count d of
                        Inl e \<Rightarrow> info
                      | Inr n \<Rightarrow>
                          info\<lparr>page_count := n,
                            category := category_of n size_bytes\<rparr>)))"

section \<open>Discovery\<close>

text \<open>
  One step of reading a stream (the lines of a pipe, the rows of a file): the next value,
  or the exception raised at that point, after which nothing more is read.
\<close>

datatype 'a item = Item 'a | Raise exn

text \<open>
  What discovery sees of a root directory: \<open>find_stdout\<close> is what iterating over the
  standard output of \<^verbatim>\<open>find root -type f -iname "*.pdf"\<close> delivers, line by line (an
  exception of \<^verbatim>\<open>Popen\<close> itself is a \<open>Raise\<close> in first place), and \<open>rglob\<close> is \<^verbatim>\<open>str(p)\<close> for
  the paths \<^verbatim>\<open>Path(root).rglob("*.[pP][dD][fF]")\<close> yields.
\<close>

record tree =
  find_stdout :: "string \<Rightarrow> string item list"
  rglob :: "string \<Rightarrow> string list"

text \<open>
  \<^verbatim>\<open>str.strip()\<close> removes the white space of Unicode (the code points for which
  \<^verbatim>\<open>str.isspace\<close> holds) from both ends; here each of them in UTF-8.
\<close>

definition whitespace :: "string list" where
  "whitespace =
     [[CHR 0x09], [CHR 0x0A], [CHR 0x0B], [CHR 0x0C], [CHR 0x0D],
      [CHR 0x1C], [CHR 0x1D], [CHR 0x1E], [CHR 0x1F], [CHR 0x20],
      [CHR 0xC2, CHR 0x85], [CHR 0xC2, CHR 0xA0], [CHR 0xE1, CHR 0x9A, CHR 0x80],
      [CHR 0xE2, CHR 0x80, CHR 0x80], [CHR 0xE2, CHR 0x80, CHR 0x81],
      [CHR 0xE2, CHR 0x80, CHR 0x82], [CHR 0xE2, CHR 0x80, CHR 0x83],
      [CHR 0xE2, CHR 0x80, CHR 0x84], [CHR 0xE2, CHR 0x80, CHR 0x85],
      [CHR 0xE2, CHR 0x80, CHR 0x86], [CHR 0xE2, CHR 0x80, CHR 0x87],
      [CHR 0xE2, CHR 0x80, CHR 0x88], [CHR 0xE2, CHR 0x80, CHR 0x89],
      [CHR 0xE2, CHR 0x80, CHR 0x8A], [CHR 0xE2, CHR 0x80, CHR 0xA8],
      [CHR 0xE2, CHR 0x80, CHR 0xA9], [CHR 0xE2, CHR 0x80, CHR 0xAF],
      [CHR 0xE2, CHR 0x81, CHR 0x9F], [CHR 0xE3, CHR 0x80, CHR 0x80]]"

text \<open>Removing, as long as one fits, a leading occurrence of one of the given strings.\<close>

function strip_prefixes :: "string list \<Rightarrow> string \<Rightarrow> string" where
  "strip_prefixes ps s =
     (case List.find (\<lambda>p. p \<noteq> [] \<and> take (length p) s = p) ps of
        None \<Rightarrow> s
      | Some p \<Rightarrow> strip_prefixes ps (drop (length p) s))"
  by pat_completeness auto
termination
proof (relation "measure (\<lambda>(ps, s). length s)")
  show "wf (measure (\<lambda>(ps, s). length s))"
    by simp
next
  fix ps :: "string list" and s p :: string
  assume "List.find (\<lambda>p. p \<noteq> [] \<and> take (length p) s = p) ps = Some p"
  then have "p \<noteq> []" and "take (length p) s = p"
    by (auto simp add: find_Some_iff)
  then have "s \<noteq> []"
    by auto
  then show "((ps, drop (length p) s), (ps, s)) \<in> measure (\<lambda>(ps, s). length s)"
    using \<open>p \<noteq> []\<close> by simp
qed

declare strip_prefixes.simps [simp del]

definition strip :: "string \<Rightarrow> string" where
  "strip s = rev (strip_prefixes (map rev whitespace) (rev (strip_prefixes whitespace s)))"

text \<open>
  The loop over the lines of \<^verbatim>\<open>find\<close>: the paths yielded, the set \<^verbatim>\<open>seen\<close> at the end, and the
  exception that ended the loop, if one did.
\<close>

fun find_lines ::
  "platform \<Rightarrow> string item list \<Rightarrow> string set \<Rightarrow> string list \<times> string set \<times> exn option" where
  "find_lines pl [] seen = ([], seen, None)"
| "find_lines pl (Raise e # rest) seen = ([], seen, Some e)"
| "find_lines pl (Item line # rest) seen =
     (let path = strip line
      in if path = [] then find_lines pl rest seen
         else (let norm = normcase pl path
               in if norm \<in> seen then find_lines pl rest seen
                  else (case find_lines pl rest (insert norm seen) of
                          (yielded, seen', e) \<Rightarrow> (path # yielded, seen', e))))"

text \<open>The loop of the \<^verbatim>\<open>except\<close> branch, which goes on with the same set \<^verbatim>\<open>seen\<close>.\<close>

fun rglob_paths :: "platform \<Rightarrow> string list \<Rightarrow> string set \<Rightarrow> string list \<times> string set" where
  "rglob_paths pl [] seen = ([], seen)"
| "rglob_paths pl (pdf_path # rest) seen =
     (let norm = normcase pl pdf_path
      in if norm \<in> seen then rglob_paths pl rest seen
         else (case rglob_paths pl rest (insert norm seen) of
                 (yielded, seen') \<Rightarrow> (pdf_path # yielded, seen')))"

text \<open>The generator, run to its end: every path it yields, in order, and the final \<^verbatim>\<open>seen\<close>.\<close>

definition find_pdf_files :: "platform \<Rightarrow> tree \<Rightarrow> string \<Rightarrow> string list \<times> string set" where
  "find_pdf_files pl tr root_path0 =
     (let root_path = path_str pl root_path0
      in case find_lines pl (find_stdout tr root_path) {} of
           (yielded, seen, None) \<Rightarrow> (yielded, seen)
         | (yielded, seen, Some e) \<Rightarrow>
             (case rglob_paths pl (rglob tr root_path) seen of
                (later, seen') \<Rightarrow> (yielded @ later, seen')))"

section \<open>The output store and the resume index\<close>

text \<open>
  The CSV file as the rows of cell texts it holds, \<open>None\<close> when it does not exist. Quoting
  and parsing are the \<^verbatim>\<open>csv\<close> library's and are not modelled.
\<close>

type_synonym store = "string list list option"

datatype level = INFO | WARNING | ERROR

type_synonym log = "(level \<times> string) list"

text \<open>
  What \<^verbatim>\<open>load_processed_csv\<close> meets: no file, or a file whose rows \<^verbatim>\<open>csv.reader\<close> delivers
  one by one until the end or until \<^verbatim>\<open>open\<close>, decoding or parsing raises.
\<close>

datatype csv_file = Missing | Existing "string list item list"

text \<open>
  Reading a store: without a fault all its rows; with the fault \<open>(k, e)\<close> the first \<open>k\<close>
  rows and then the exception \<open>e\<close>.
\<close>

fun read_store :: "(nat \<times> exn) option \<Rightarrow> store \<Rightarrow> csv_file" where
  "read_store fault None = Missing"
| "read_store None (Some rows) = Existing (map Item rows)"
| "read_store (Some (k, e)) (Some rows) = Existing (map Item (take k rows) @ [Raise e])"

text \<open>
  \<^verbatim>\<open>row.get(key)\<close> on the dictionary \<^verbatim>\<open>csv.DictReader\<close> builds: \<^verbatim>\<open>dict(zip(fieldnames, row))\<close>,
  where a later duplicate of a field name wins, and the field names beyond the row's
  length map to \<^verbatim>\<open>None\<close>.
\<close>

definition dict_get :: "string list \<Rightarrow> string list \<Rightarrow> string \<Rightarrow> string option" where
  "dict_get fieldnames row key =
     (let vals = map Some row @ replicate (length fieldnames - length row) None
      in case map_of (rev (zip fieldnames vals)) key of
           None \<Rightarrow> None
         | Some v \<Rightarrow> v)"

text \<open>The loop over the rows after the header; \<^verbatim>\<open>DictReader\<close> skips empty rows.\<close>

fun load_rows ::
  "platform \<Rightarrow> string list \<Rightarrow> string list item list \<Rightarrow> string set \<Rightarrow> string set \<times> exn option" where
  "load_rows pl fieldnames [] processed = (processed, None)"
| "load_rows pl fieldnames (Raise e # rest) processed = (processed, Some e)"
| "load_rows pl fieldnames (Item row # rest) processed =
     (if row = [] then load_rows pl fieldnames rest processed
      else (case dict_get fieldnames row ''file_path'' of
              None \<Rightarrow> load_rows pl fieldnames rest processed
            | Some p \<Rightarrow>
                if p \<noteq> [] then load_rows pl fieldnames rest (insert (normcase pl p) processed)
                else load_rows pl fieldnames rest processed))"

text \<open>The two log lines: "loaded N processed records" and "loading the CSV failed: e".\<close>

definition loaded_records :: "nat \<Rightarrow> string" where
  "loaded_records n =
     [CHR 0xE5, CHR 0xB7, CHR 0xB2, CHR 0xE5, CHR 0x8A, CHR 0xA0, CHR 0xE8, CHR 0xBD, CHR 0xBD]
     @ '' '' @ str_nat n @ '' '' @
     [CHR 0xE6, CHR 0x9D, CHR 0xA1, CHR 0xE5, CHR 0xB7, CHR 0xB2, CHR 0xE5, CHR 0xA4, CHR 0x84,
      CHR 0xE7, CHR 0x90, CHR 0x86, CHR 0xE8, CHR 0xAE, CHR 0xB0, CHR 0xE5, CHR 0xBD, CHR 0x95]"

definition load_failed :: "exn \<Rightarrow> string" where
  "load_failed e =
     [CHR 0xE5, CHR 0x8A, CHR 0xA0, CHR 0xE8, CHR 0xBD, CHR 0xBD] @ '' CSV '' @
     [CHR 0xE5, CHR 0xA4, CHR 0xB1, CHR 0xE8, CHR 0xB4, CHR 0xA5] @ '': '' @ str_exn e"

text \<open>
  \<^verbatim>\<open>load_processed_csv\<close>: the set it returns and the lines it logs. The first row read is
  the header. An exception leaves the \<^verbatim>\<open>try\<close> block with the set as filled so far.
\<close>

definition load_processed_csv :: "platform \<Rightarrow> csv_file \<Rightarrow> string set \<times> log" where
  "load_processed_csv pl csv_file =
     (case csv_file of
        Missing \<Rightarrow> ({}, [])
      | Existing [] \<Rightarrow> ({}, [(INFO, loaded_records 0)])
      | Existing (Raise e # rest) \<Rightarrow> ({}, [(WARNING, load_failed e)])
      | Existing (Item fieldnames # rest) \<Rightarrow>
          (case load_rows pl fieldnames rest {} of
             (processed, None) \<Rightarrow> (processed, [(INFO, loaded_records (card processed))])
           | (processed, Some e) \<Rightarrow> (processed, [(WARNING, load_failed e)])))"

section \<open>The pipeline of \<^verbatim>\<open>pdf_processor_v6.py\<close>\<close>

definition BATCH_WRITE_SIZE :: nat where
  "BATCH_WRITE_SIZE = 1000"

definition header :: "string list" where
  "header = [''file_path'', ''page_count'', ''file_size_mb'', ''category'']"

text \<open>The row \<^verbatim>\<open>writer.writerow\<close> receives for a record, each cell as the text \<^verbatim>\<open>csv\<close> writes.\<close>

definition csv_row :: "info \<Rightarrow> string list" where
  "csv_row row = [info.file_path row, str_int (info.page_count row),
                  str_float 2 (file_size_mb row), info.category row]"

text \<open>
  A message of the queue is a batch of rows or the sentinel \<^verbatim>\<open>None\<close>; a row of a batch may
  itself be \<^verbatim>\<open>None\<close>, which the writer skips.
\<close>

type_synonym message = "info option list option"

text \<open>
  The writer either left its loop on the sentinel, or has consumed every message and
  waits in \<^verbatim>\<open>queue.get()\<close>.
\<close>

datatype writer_status = Exited | Waiting

text \<open>The \<^verbatim>\<open>while True\<close> loop of the writer over the messages in the order they were put.\<close>

fun writer_loop :: "string list list \<Rightarrow> message list \<Rightarrow> string list list \<times> writer_status" where
  "writer_loop f [] = (f, Waiting)"
| "writer_loop f (None # queue) = (f, Exited)"
| "writer_loop f (Some rows # queue) =
     writer_loop (f @ map csv_row (List.map_filter (\<lambda>row. row) rows)) queue"

text \<open>
  \<^verbatim>\<open>csv_writer_thread\<close>: opening in mode \<^verbatim>\<open>a\<close> creates a missing file and keeps the rows of
  an existing one; the header is written when the file did not exist.
\<close>

definition csv_writer_thread :: "store \<Rightarrow> message list \<Rightarrow> store \<times> writer_status" where
  "csv_writer_thread csv_file queue =
     (let file_exists = (csv_file \<noteq> None);
          f = (case csv_file of None \<Rightarrow> [] | Some rows \<Rightarrow> rows);
          f = (if \<not> file_exists then f @ [header] else f)
      in case writer_loop f queue of (f, status) \<Rightarrow> (Some f, status))"

text \<open>
  The counters: \<^verbatim>\<open>stats["processed"]\<close> and the dictionary \<^verbatim>\<open>stats["category_counts"]\<close>, kept in
  insertion order. (\<^verbatim>\<open>stats["start"]\<close> is a wall-clock time and only feeds the log.)
\<close>

record stats =
  processed :: int
  category_counts :: "(string \<times> int) list"

text \<open>\<^verbatim>\<open>d.setdefault(k, v)\<close> and \<^verbatim>\<open>d[k] += 1\<close> on a dictionary in insertion order.\<close>

definition setdefault :: "'k \<Rightarrow> 'v \<Rightarrow> ('k \<times> 'v) list \<Rightarrow> ('k \<times> 'v) list" where
  "setdefault k v d = (case map_of d k of None \<Rightarrow> d @ [(k, v)] | Some u \<Rightarrow> d)"

definition add_one :: "'k \<Rightarrow> ('k \<times> int) list \<Rightarrow> ('k \<times> int) list" where
  "add_one k d = AList.map_entry k (\<lambda>v. v + 1) d"

text \<open>The state of the collection loop: the batch, the messages put so far, the counters.\<close>

record state =
  batch_rows :: "info option list"
  csv_queue :: "message list"
  stats :: stats

definition state0 :: state where
  "state0 =
     \<lparr>batch_rows = [], csv_queue = [],
      stats = \<lparr>processed = 0,
                category_counts =
                  [(''S-S'', 0), (''S-L'', 0), (''L-S'', 0), (''L-L'', 0), (''N/A'', 0)]\<rparr>\<rparr>"

text \<open>
  One turn of \<^verbatim>\<open>for fut in as_completed(futures)\<close> on the result \<^verbatim>\<open>res\<close>. The progress line
  depends on the clock and is left out.
\<close>

definition collect :: "state \<Rightarrow> info \<Rightarrow> state" where
  "collect st res =
     (let batch = batch_rows st @ [Some res];
          counts = setdefault (info.category res) 0 (category_counts (stats st));
          counts = add_one (info.category res) counts;
          st = st\<lparr>stats := \<lparr>processed = processed (stats st) + 1, category_counts = counts\<rparr>\<rparr>
      in if length batch \<ge> BATCH_WRITE_SIZE
         then st\<lparr>batch_rows := [], csv_queue := csv_queue st @ [Some batch]\<rparr>
         else st\<lparr>batch_rows := batch\<rparr>)"

text \<open>After the loop: the partial batch, if any, and then the sentinel.\<close>

definition finish :: "state \<Rightarrow> message list" where
  "finish st =
     csv_queue st @ (if batch_rows st \<noteq> [] then [Some (batch_rows st)] else []) @ [None]"

text \<open>
  \<^verbatim>\<open>as_completed\<close> hands out the futures in the order they finish, which the program does
  not control: the schedule picks, at each turn, one of the futures still pending.
\<close>

fun as_completed :: "nat list \<Rightarrow> 'a list \<Rightarrow> 'a list" where
  "as_completed sched [] = []"
| "as_completed [] pending = pending"
| "as_completed (c # sched) pending =
     (let i = c mod length pending
      in pending ! i # as_completed sched (take i pending @ drop (Suc i) pending))"

text \<open>The generator \<^verbatim>\<open>pdf_gen\<close>: the discovered paths that are not in the resume index.\<close>

definition pdf_gen :: "platform \<Rightarrow> tree \<Rightarrow> string \<Rightarrow> string set \<Rightarrow> string list" where
  "pdf_gen pl tr root_path loaded =
     filter (\<lambda>p. normcase pl p \<notin> loaded) (fst (find_pdf_files pl tr root_path))"

text \<open>
  The dictionary \<^verbatim>\<open>futures\<close>, built to its end before the first result is collected: a
  future is modelled by the result it will hold, paired with its path.
\<close>

definition futures :: "platform \<Rightarrow> fs \<Rightarrow> string list \<Rightarrow> (info \<times> string) list" where
  "futures pl w paths = map (\<lambda>p. (process_single_pdf pl w p, p)) paths"

record outcome =
  store :: store
  writer :: writer_status
  final_stats :: stats
  log :: log

text \<open>
  \<^verbatim>\<open>process_pdfs\<close>. The queue is first in, first out with one producer and one consumer,
  so the writer meets the messages in the order \<^verbatim>\<open>put\<close> sent them; \<^verbatim>\<open>join\<close> waits for the
  writer. The number of workers does not enter the result.
\<close>

definition process_pdfs ::
  "platform \<Rightarrow> fs \<Rightarrow> tree \<Rightarrow> nat list \<Rightarrow> (nat \<times> exn) option \<Rightarrow> string \<Rightarrow> store \<Rightarrow> bool \<Rightarrow> outcome" where
  "process_pdfs pl w tr sched fault root_path csv_file resume =
     (let (loaded, lg) =
            (if resume then load_processed_csv pl (read_store fault csv_file) else ({}, []));
          fut = futures pl w (pdf_gen pl tr root_path loaded);
          st = foldl collect state0 (map fst (as_completed sched fut));
          (f, status) = csv_writer_thread csv_file (finish st)
      in \<lparr>store = f, writer = status, final_stats = stats st, log = lg\<rparr>)"

text \<open>
  Names for three things inside a run: the paths it submits, the results in the order
  they are collected, and the rows the batches of a queue carry.
\<close>

definition submitted ::
  "platform \<Rightarrow> tree \<Rightarrow> (nat \<times> exn) option \<Rightarrow> string \<Rightarrow> store \<Rightarrow> bool \<Rightarrow> string list" where
  "submitted pl tr fault root_path csv_file resume =
     pdf_gen pl tr root_path
       (fst (if resume then load_processed_csv pl (read_store fault csv_file) else ({}, [])))"

definition results ::
  "platform \<Rightarrow> fs \<Rightarrow> nat list \<Rightarrow> string list \<Rightarrow> info list" where
  "results pl w sched paths = map fst (as_completed sched (futures pl w paths))"

fun payload :: "message list \<Rightarrow> info option list" where
  "payload [] = []"
| "payload (None # queue) = payload queue"
| "payload (Some rows # queue) = rows @ payload queue"

section \<open>The pipeline of \<^verbatim>\<open>pdf_processor.py\<close>\<close>

definition header_v1 :: "string list" where
  "header_v1 = [''file_path'', ''file_size_bytes'', ''can_open'', ''page_count'',
                ''processing_time'', ''error_message'', ''category'']"

definition csv_row_v1 :: "info_v1 \<Rightarrow> string list" where
  "csv_row_v1 i = [info_v1.file_path i, str_int (file_size_bytes i), str_bool (can_open i),
                   str_int (info_v1.page_count i), str_float 3 (processing_time i),
                   error_message i, info_v1.category i]"

text \<open>
  The earlier program runs \<^verbatim>\<open>find root -type f -name "*.pdf"\<close>: \<open>Inl\<close> when \<^verbatim>\<open>Popen\<close> raises,
  else the lines as iterating over the pipe delivers them.
\<close>

record tree_v1 =
  find_name :: "string \<Rightarrow> exn + string item list"

text \<open>\<^verbatim>\<open>line.rstrip\<close> of the newline character: every trailing newline is removed.\<close>

definition rstrip_newline :: "string \<Rightarrow> string" where
  "rstrip_newline line = rev (dropWhile (\<lambda>c. c = CHR 0x0A) (rev line))"

text \<open>The generator \<^verbatim>\<open>pdf_paths\<close>, run to its end or to the exception that ends it.\<close>

fun pdf_paths :: "string item list \<Rightarrow> string list \<times> exn option" where
  "pdf_paths [] = ([], None)"
| "pdf_paths (Raise e # rest) = ([], Some e)"
| "pdf_paths (Item line # rest) =
     (case pdf_paths rest of (ps, e) \<Rightarrow> (rstrip_newline line # ps, e))"

text \<open>The log lines: "path does not exist: P", "start scanning (only *.pdf): P" and
  "using N processes to parse PDF".\<close>

definition path_missing :: "string \<Rightarrow> string" where
  "path_missing root_path =
     [CHR 0xE8, CHR 0xB7, CHR 0xAF, CHR 0xE5, CHR 0xBE, CHR 0x84, CHR 0xE4, CHR 0xB8, CHR 0x8D,
      CHR 0xE5, CHR 0xAD, CHR 0x98, CHR 0xE5, CHR 0x9C, CHR 0xA8] @ '': '' @ root_path"

definition start_scan :: "string \<Rightarrow> string" where
  "start_scan root_path =
     [CHR 0xE5, CHR 0xBC, CHR 0x80, CHR 0xE5, CHR 0xA7, CHR 0x8B, CHR 0xE6, CHR 0x89, CHR 0xAB,
      CHR 0xE6, CHR 0x8F, CHR 0x8F, CHR 0xE7, CHR 0x9B, CHR 0xAE, CHR 0xE5, CHR 0xBD, CHR 0x95]
     @ '' ('' @
     [CHR 0xE4, CHR 0xBB, CHR 0x85, CHR 0xE6, CHR 0x9F, CHR 0xA5, CHR 0xE6, CHR 0x89, CHR 0xBE]
     @ '' *.pdf): '' @ root_path"

definition using_workers :: "int \<Rightarrow> string" where
  "using_workers workers =
     [CHR 0xE5, CHR 0x90, CHR 0xAF, CHR 0xE7, CHR 0x94, CHR 0xA8] @ '' '' @ str_int workers @ '' '' @
     [CHR 0xE4, CHR 0xB8, CHR 0xAA, CHR 0xE8, CHR 0xBF, CHR 0x9B, CHR 0xE7, CHR 0xA8, CHR 0x8B,
      CHR 0xE5, CHR 0xB9, CHR 0xB6, CHR 0xE8, CHR 0xA1, CHR 0x8C, CHR 0xE8, CHR 0xA7, CHR 0xA3,
      CHR 0xE6, CHR 0x9E, CHR 0x90] @ '' PDF''"

text \<open>The dictionary \<^verbatim>\<open>futures\<close> of \<^verbatim>\<open>main\<close>, built to its end before the first row is written.\<close>

definition futures_v1 :: "platform \<Rightarrow> fs \<Rightarrow> string list \<Rightarrow> (info_v1 \<times> string) list" where
  "futures_v1 pl w paths = map (\<lambda>pdf. (process_single_pdf_v1 pl w pdf, pdf)) paths"

text \<open>
  What a call of \<^verbatim>\<open>main\<close> leaves: the store, the log lines that do not depend on the clock,
  and the exception that left \<^verbatim>\<open>main\<close> uncaught, if one did.
\<close>

record outcome_v1 =
  store_v1 :: store
  log_v1 :: log
  raised :: "exn option"

text \<open>
  \<^verbatim>\<open>main\<close>: the check of the root, \<^verbatim>\<open>Popen\<close>, the store opened in mode \<^verbatim>\<open>w\<close> (which empties
  an existing file) for the header, then all paths submitted and one row per result.
\<close>

definition main_v1 ::
  "platform \<Rightarrow> fs \<Rightarrow> tree_v1 \<Rightarrow> nat list \<Rightarrow> string \<Rightarrow> store \<Rightarrow> int \<Rightarrow> outcome_v1" where
  "main_v1 pl w tr sched root_path0 output_csv workers =
     (let root_path = path_str pl root_path0
      in if \<not> path_exists w root_path
         then \<lparr>store_v1 = output_csv, log_v1 = [(ERROR, path_missing root_path)], raised = None\<rparr>
         else (let lg = [(INFO, start_scan root_path)]
               in case find_name tr root_path of
                    Inl e \<Rightarrow> \<lparr>store_v1 = output_csv, log_v1 = lg, raised = Some e\<rparr>
                  | Inr lines \<Rightarrow>
                      (let f = [header_v1];
                           lg = lg @ [(INFO, using_workers workers)]
                       in case pdf_paths lines of
                            (paths, Some e) \<Rightarrow> \<lparr>store_v1 = Some f, log_v1 = lg, raised = Some e\<rparr>
                          | (paths, None) \<Rightarrow>
                              (let fut = futures_v1 pl w paths;
                                   rows = map (\<lambda>future. csv_row_v1 (fst future))
                                            (as_completed sched fut)
                               in \<lparr>store_v1 = Some (f @ rows), log_v1 = lg, raised = None\<rparr>))))"

text \<open>
  The exit status of the Python process: 0 when the script runs to its end, 1 when an
  exception leaves it uncaught.
\<close>

definition exit_status :: "exn option \<Rightarrow> int" where
  "exit_status r = (case r of None \<Rightarrow> 0 | Some e \<Rightarrow> 1)"

section \<open>Properties of the classification of one file\<close>

text \<open>
  A world in which every file has exactly the size threshold, opens, is not encrypted and
  has exactly the page threshold: the boundary case of both axes.
\<close>

definition boundary_world :: fs where
  "boundary_world =
     \<lparr>path_exists = (\<lambda>p. True), st_size = (\<lambda>p. Inr (10 * 1024 * 1024)),
      fitz_open = (\<lambda>p. Inr \<lparr>is_encrypted = False, page_count = Inr 100\<rparr>),
      elapsed = (\<lambda>p. 12)\<rparr>"

text \<open>
  A world in which every file has 50 bytes and opens as a document without pages, and one
  in which every file has 2000 bytes and opens as an encrypted document whose page tree
  is readable (\<^verbatim>\<open>page_count\<close> does not need the password).
\<close>

definition tiny_world :: fs where
  "tiny_world =
     \<lparr>path_exists = (\<lambda>p. True), st_size = (\<lambda>p. Inr 50),
      fitz_open = (\<lambda>p. Inr \<lparr>is_encrypted = False, page_count = Inr 0\<rparr>),
      elapsed = (\<lambda>p. 1)\<rparr>"

definition encrypted_world :: fs where
  "encrypted_world =
     \<lparr>path_exists = (\<lambda>p. True), st_size = (\<lambda>p. Inr 2000),
      fitz_open = (\<lambda>p. Inr \<lparr>is_encrypted = True, page_count = Inr 5\<rparr>),
      elapsed = (\<lambda>p. 1)\<rparr>"

text \<open>
  Claim C1. When a file is classified (its size \<open>s\<close> was read, it opened and its page count
  \<open>n\<close> was read), the category of \<^verbatim>\<open>pdf_processor_v6.py\<close> is the page letter, a dash and
  the size letter, where the page letter is \<^verbatim>\<open>L\<close> exactly when \<open>n > 100\<close> and the size letter
  is \<^verbatim>\<open>L\<close> exactly when \<open>s > 10 * 1024 * 1024\<close>, both strict; \<^verbatim>\<open>pdf_processor.py\<close> gives the same
  category on the files it classifies (at least 100 bytes, not encrypted).
\<close>

theorem category_strict_thresholds:
  assumes "st_size w (path_str pl p) = Inr s"
    and "fitz_open w (path_str pl p) = Inr d"
    and "doc.page_count d = Inr n"
  shows "info.category (process_single_pdf pl w p) =
           (if 100 < n then ''L'' else ''S'') @ ''-'' @
           (if 10 * 1024 * 1024 < s then ''L'' else ''S'')
       \<and> (100 \<le> s \<and> \<not> is_encrypted d \<longrightarrow>
            info_v1.category (process_single_pdf_v1 pl w p) =
              (if 100 < n then ''L'' else ''S'') @ ''-'' @
              (if 10 * 1024 * 1024 < s then ''L'' else ''S''))"
  using assms
  by (simp add: process_single_pdf_def process_single_pdf_v1_def category_of_def page_cat_def
      size_cat_def PAGE_COUNT_THRESHOLD_def FILE_SIZE_THRESHOLD_BYTES_def Let_def)

text \<open>At exactly 10 MiB and exactly 100 pages both programs answer \<^verbatim>\<open>S-S\<close>.\<close>

theorem category_strict_thresholds_witness:
  "info.category (process_single_pdf posix boundary_world ''/data/a.pdf'') = ''S-S''
   \<and> info_v1.category (process_single_pdf_v1 posix boundary_world ''/data/a.pdf'') = ''S-S''"
proof -
  let ?d = "\<lparr>is_encrypted = False, page_count = Inr 100\<rparr>"
  have h1: "st_size boundary_world (path_str posix ''/data/a.pdf'') = Inr (10 * 1024 * 1024)"
    by (simp add: boundary_world_def)
  have h2: "fitz_open boundary_world (path_str posix ''/data/a.pdf'') = Inr ?d"
    by (simp add: boundary_world_def)
  have h3: "doc.page_count ?d = Inr 100"
    by simp
  show ?thesis
    using category_strict_thresholds [OF h1 h2 h3] by simp
qed

text \<open>A computed category is never the placeholder \<^verbatim>\<open>N/A\<close>.\<close>

lemma category_of_not_NA: "category_of n s \<noteq> ''N/A''"
  by (simp add: category_of_def page_cat_def size_cat_def)

text \<open>
  Claim C4, as stated, fails on \<^verbatim>\<open>pdf_processor_v6.py\<close>: its worker has no size check, so a
  file of 50 bytes that opens is classified.
\<close>

theorem too_small_v6_counterexample:
  "st_size tiny_world (path_str posix ''/data/a.pdf'') = Inr 50
   \<and> info.category (process_single_pdf posix tiny_world ''/data/a.pdf'') = ''S-S''"
  by (simp add: tiny_world_def process_single_pdf_def category_of_def page_cat_def
      size_cat_def PAGE_COUNT_THRESHOLD_def FILE_SIZE_THRESHOLD_BYTES_def)

text \<open>
  Claim C4, amended. In \<^verbatim>\<open>pdf_processor.py\<close> a file below 100 bytes yields the record with
  category \<^verbatim>\<open>N/A\<close>, page count 0, \<^verbatim>\<open>can_open\<close> false and the non-empty "too small" message,
  and the result does not depend on what opening the file would give (the file is never
  opened). In \<^verbatim>\<open>pdf_processor_v6.py\<close> there is no size check and no error message: for such a
  file the category is \<^verbatim>\<open>N/A\<close> exactly when opening it or reading its page count raises.
\<close>

theorem too_small_short_circuit:
  assumes "st_size w (path_str pl p) = Inr s" and "s < 100"
  shows "process_single_pdf_v1 pl w p =
           \<lparr>info_v1.file_path = path_str pl p, file_size_bytes = s, can_open = False,
            page_count = 0, processing_time = elapsed w (path_str pl p),
            error_message = too_small, category = ''N/A''\<rparr>
       \<and> too_small \<noteq> []
       \<and> process_single_pdf_v1 pl (w\<lparr>fitz_open := f\<rparr>) p = process_single_pdf_v1 pl w p
       \<and> (info.category (process_single_pdf pl w p) = ''N/A'' \<longleftrightarrow>
            (case fitz_open w (path_str pl p) of
               Inl e \<Rightarrow> True
             | Inr d \<Rightarrow> isl (doc.page_count d)))"
  using assms
  by (auto simp add: process_single_pdf_v1_def process_single_pdf_def too_small_def
      category_of_not_NA Let_def split: sum.splits)

theorem too_small_short_circuit_witness:
  "process_single_pdf_v1 posix tiny_world ''/data/a.pdf'' =
           \<lparr>info_v1.file_path = ''/data/a.pdf'', file_size_bytes = 50, can_open = False,
            page_count = 0, processing_time = 1,
            error_message = too_small, category = ''N/A''\<rparr>"
proof -
  have h: "st_size tiny_world (path_str posix ''/data/a.pdf'') = Inr 50"
    by (simp add: tiny_world_def)
  have p: "path_str posix ''/data/a.pdf'' = ''/data/a.pdf''"
    by (simp add: posix_def posix_path_str_def posix_root_def)
  show ?thesis
    using too_small_short_circuit [OF h, of "fitz_open tiny_world"]
    by (simp add: p tiny_world_def)
qed

text \<open>
  Claim C5, as stated, fails on \<^verbatim>\<open>pdf_processor_v6.py\<close>: its worker never reads
  \<^verbatim>\<open>is_encrypted\<close>, so an encrypted document whose page count can be read is classified.
\<close>

theorem encrypted_v6_counterexample:
  "is_encrypted \<lparr>is_encrypted = True, page_count = Inr 5\<rparr>
   \<and> fitz_open encrypted_world (path_str posix ''/data/a.pdf'') =
       Inr \<lparr>is_encrypted = True, page_count = Inr 5\<rparr>
   \<and> info.category (process_single_pdf posix encrypted_world ''/data/a.pdf'') = ''S-S''"
  by (simp add: encrypted_world_def process_single_pdf_def category_of_def page_cat_def
      size_cat_def PAGE_COUNT_THRESHOLD_def FILE_SIZE_THRESHOLD_BYTES_def)

text \<open>
  Claim C5, amended. In \<^verbatim>\<open>pdf_processor.py\<close> a document of at least 100 bytes that opens and
  is encrypted yields the record with category \<^verbatim>\<open>N/A\<close>, page count 0, \<^verbatim>\<open>can_open\<close> false and
  the non-empty "encrypted PDF" message, whatever its size and page count. In
  \<^verbatim>\<open>pdf_processor_v6.py\<close> encryption is not looked at: when the page count of an encrypted
  document can be read, the document is classified by the thresholds.
\<close>

theorem encrypted_short_circuit:
  assumes "st_size w (path_str pl p) = Inr s"
    and "fitz_open w (path_str pl p) = Inr d"
    and "is_encrypted d"
  shows "(100 \<le> s \<longrightarrow>
            process_single_pdf_v1 pl w p =
              \<lparr>info_v1.file_path = path_str pl p, file_size_bytes = s, can_open = False,
               page_count = 0, processing_time = elapsed w (path_str pl p),
               error_message = encrypted_pdf, category = ''N/A''\<rparr>)
       \<and> encrypted_pdf \<noteq> []
       \<and> (\<forall>n. doc.page_count d = Inr n \<longrightarrow>
             process_single_pdf pl w p =
               \<lparr>info.file_path = path_str pl p, page_count = n, file_size_mb = round2_mib s,
                category = category_of n s\<rparr>)"
  using assms
  by (auto simp add: process_single_pdf_v1_def process_single_pdf_def encrypted_pdf_def Let_def)

theorem encrypted_short_circuit_witness:
  "process_single_pdf_v1 posix encrypted_world ''/data/a.pdf'' =
              \<lparr>info_v1.file_path = ''/data/a.pdf'', file_size_bytes = 2000, can_open = False,
               page_count = 0, processing_time = 1,
               error_message = encrypted_pdf, category = ''N/A''\<rparr>
   \<and> process_single_pdf posix encrypted_world ''/data/a.pdf'' =
               \<lparr>info.file_path = ''/data/a.pdf'', page_count = 5, file_size_mb = 0,
                category = ''S-S''\<rparr>"
proof -
  let ?d = "\<lparr>is_encrypted = True, page_count = Inr 5\<rparr>"
  have p: "path_str posix ''/data/a.pdf'' = ''/data/a.pdf''"
    by (simp add: posix_def posix_path_str_def posix_root_def)
  have h1: "st_size encrypted_world (path_str posix ''/data/a.pdf'') = Inr 2000"
    by (simp add: encrypted_world_def)
  have h2: "fitz_open encrypted_world (path_str posix ''/data/a.pdf'') = Inr ?d"
    by (simp add: encrypted_world_def)
  have h3: "is_encrypted ?d" by simp
  have r: "round2_mib 2000 = 0"
    by (simp add: round2_mib_def round_half_even_def)
  have c: "category_of 5 2000 = ''S-S''"
    by (simp add: category_of_def page_cat_def size_cat_def PAGE_COUNT_THRESHOLD_def
        FILE_SIZE_THRESHOLD_BYTES_def)
  show ?thesis
    using encrypted_short_circuit [OF h1 h2 h3]
    by (simp add: p r c encrypted_world_def)
qed

section \<open>Sample worlds\<close>

text \<open>
  \<open>small_world\<close>: every path exists, has 2000 bytes and opens as a plain document of 3
  pages. \<open>nowhere\<close>: nothing exists. \<open>cwd_tree\<close>: the current directory holds
  \<^verbatim>\<open>a.pdf\<close>, which \<^verbatim>\<open>find .\<close> prints as \<^verbatim>\<open>./a.pdf\<close>. \<open>data_tree\<close>: \<^verbatim>\<open>/data\<close> holds \<^verbatim>\<open>a.pdf\<close> and
  \<^verbatim>\<open>b.PDF\<close>, and the traversal prints \<^verbatim>\<open>a.pdf\<close> twice. \<open>data_tree_v1\<close>: what the
  case-sensitive \<^verbatim>\<open>find\<close> of the earlier program prints for \<^verbatim>\<open>/data\<close>. \<open>old_row\<close>: a row left
  in the store by an earlier run of that program.
\<close>

definition small_world :: fs where
  "small_world =
     \<lparr>path_exists = (\<lambda>p. True), st_size = (\<lambda>p. Inr 2000),
      fitz_open = (\<lambda>p. Inr \<lparr>is_encrypted = False, page_count = Inr 3\<rparr>),
      elapsed = (\<lambda>p. 12)\<rparr>"

definition nowhere :: fs where
  "nowhere =
     \<lparr>path_exists = (\<lambda>p. False), st_size = (\<lambda>p. Inl (Exn ''No such file or directory'')),
      fitz_open = (\<lambda>p. Inl (Exn ''no such file'')), elapsed = (\<lambda>p. 0)\<rparr>"

definition cwd_tree :: tree where
  "cwd_tree =
     \<lparr>find_stdout = (\<lambda>root. if root = ''.'' then [Item (''./a.pdf'' @ [CHR 0x0A])] else []),
      rglob = (\<lambda>root. [])\<rparr>"

definition data_tree :: tree where
  "data_tree =
     \<lparr>find_stdout = (\<lambda>root. if root = ''/data''
          then [Item (''/data/a.pdf'' @ [CHR 0x0A]), Item (''/data/b.PDF'' @ [CHR 0x0A]),
                Item (''/data/a.pdf'' @ [CHR 0x0A])]
          else []),
      rglob = (\<lambda>root. [])\<rparr>"

definition data_tree_v1 :: tree_v1 where
  "data_tree_v1 =
     \<lparr>find_name = (\<lambda>root. if root = ''/data''
          then Inr [Item (''/data/a.pdf'' @ [CHR 0x0A])]
          else Inr [])\<rparr>"

definition old_row :: "string list" where
  "old_row = [''/old/x.pdf'', ''2000'', ''True'', ''1'', ''0.5'', [], ''S-S'']"

section \<open>Properties of the pipeline\<close>

subsection \<open>The counters\<close>

lemma sum_setdefault: "sum_list (map snd (setdefault k (0::int) d)) = sum_list (map snd d)"
  by (simp add: setdefault_def split: option.splits)

lemma map_of_setdefault: "map_of (setdefault k v d) k \<noteq> None"
  by (auto simp add: setdefault_def map_add_def split: option.splits)

lemma sum_add_one:
  "map_of d k \<noteq> None \<Longrightarrow> sum_list (map snd (add_one k d)) = sum_list (map snd d) + 1"
  unfolding add_one_def
  by (induction d) (auto split: if_splits)

lemma collect_counts:
  "sum_list (map snd (category_counts (stats (collect st res)))) =
     sum_list (map snd (category_counts (stats st))) + 1"
  by (simp add: collect_def Let_def sum_add_one map_of_setdefault sum_setdefault)

lemma collect_processed: "processed (stats (collect st res)) = processed (stats st) + 1"
  by (simp add: collect_def Let_def)

lemma foldl_collect_balance:
  "sum_list (map snd (category_counts (stats st))) = processed (stats st) \<Longrightarrow>
   sum_list (map snd (category_counts (stats (foldl collect st rs)))) =
     processed (stats (foldl collect st rs))"
proof (induction rs arbitrary: st)
  case Nil
  then show ?case by simp
next
  case (Cons res rs)
  have "sum_list (map snd (category_counts (stats (collect st res)))) =
          processed (stats (collect st res))"
    using Cons.prems by (simp add: collect_counts collect_processed)
  then show ?case
    using Cons.IH by simp
qed

lemma foldl_collect_processed:
  "processed (stats (foldl collect st rs)) = processed (stats st) + int (length rs)"
  by (induction rs arbitrary: st) (simp_all add: collect_processed)

lemma state0_balance: "sum_list (map snd (category_counts (stats state0))) = processed (stats state0)"
  by (simp add: state0_def)

lemma process_pdfs_final_stats:
  "final_stats (process_pdfs pl w tr sched fault root_path csv_file resume) =
     stats (foldl collect state0 (map fst (as_completed sched
       (futures pl w (pdf_gen pl tr root_path
          (fst (if resume then load_processed_csv pl (read_store fault csv_file) else ({}, []))))))))"
  by (simp add: process_pdfs_def Let_def split: prod.splits)

subsection \<open>Completion order\<close>




subsection \<open>The collection loop and the queue\<close>

lemma payload_append: "payload (q @ q') = payload q @ payload q'"
  by (induction q rule: payload.induct) simp_all

lemma collect_payload:
  "payload (csv_queue (collect st res)) @ batch_rows (collect st res) =
     payload (csv_queue st) @ batch_rows st @ [Some res]"
  by (simp add: collect_def Let_def payload_append)

lemma collect_no_sentinel:
  "None \<notin> set (csv_queue st) \<Longrightarrow> None \<notin> set (csv_queue (collect st res))"
  by (simp add: collect_def Let_def)

lemma foldl_collect_payload:
  "payload (csv_queue (foldl collect st rs)) @ batch_rows (foldl collect st rs) =
     payload (csv_queue st) @ batch_rows st @ map Some rs"
proof (induction rs arbitrary: st)
  case Nil
  then show ?case by simp
next
  case (Cons r rs)
  have "payload (csv_queue (foldl collect (collect st r) rs)) @
          batch_rows (foldl collect (collect st r) rs) =
        (payload (csv_queue (collect st r)) @ batch_rows (collect st r)) @ map Some rs"
    using Cons.IH [of "collect st r"] by simp
  then show ?case
    by (simp add: collect_payload)
qed

lemma foldl_collect_no_sentinel:
  "None \<notin> set (csv_queue st) \<Longrightarrow> None \<notin> set (csv_queue (foldl collect st rs))"
  by (induction rs arbitrary: st) (simp_all add: collect_no_sentinel)

lemma finish_run:
  "finish (foldl collect state0 rs) = butlast (finish (foldl collect state0 rs)) @ [None]
   \<and> None \<notin> set (butlast (finish (foldl collect state0 rs)))
   \<and> payload (butlast (finish (foldl collect state0 rs))) = map Some rs"
proof -
  let ?st = "foldl collect state0 rs"
  let ?q = "csv_queue ?st @ (if batch_rows ?st \<noteq> [] then [Some (batch_rows ?st)] else [])"
  have f: "finish ?st = ?q @ [None]"
    by (simp add: finish_def)
  have b: "butlast (finish ?st) = ?q"
    by (simp only: f butlast_snoc)
  have "None \<notin> set (csv_queue ?st)"
    by (rule foldl_collect_no_sentinel) (simp add: state0_def)
  then have n: "None \<notin> set ?q"
    by simp
  have "payload (csv_queue ?st) @ batch_rows ?st = map Some rs"
    using foldl_collect_payload [of state0 rs] by (simp add: state0_def)
  then have p: "payload ?q = map Some rs"
    by (cases "batch_rows ?st = []") (simp_all add: payload_append)
  show ?thesis
  proof (intro conjI)
    show "finish ?st = butlast (finish ?st) @ [None]"
      unfolding b by (rule f)
    show "None \<notin> set (butlast (finish ?st))"
      unfolding b by (rule n)
    show "payload (butlast (finish ?st)) = map Some rs"
      unfolding b by (rule p)
  qed
qed

subsection \<open>The writer\<close>

lemma map_filter_app:
  "List.map_filter f (xs @ ys) = List.map_filter f xs @ List.map_filter f ys"
  by (simp add: List.map_filter_def)

lemma map_filter_Some: "List.map_filter (\<lambda>row. row) (map Some rs) = rs"
  by (induction rs) simp_all

lemma writer_loop_sentinel:
  "None \<notin> set q \<Longrightarrow>
   writer_loop f (q @ None # later) =
     (f @ map csv_row (List.map_filter (\<lambda>row. row) (payload q)), Exited)"
proof (induction q arbitrary: f)
  case Nil
  then show ?case by simp
next
  case (Cons m q)
  then obtain rows where m: "m = Some rows"
    by (cases m) auto
  have "None \<notin> set q" using Cons.prems by simp
  then show ?case
    using Cons.IH by (simp add: m map_filter_app)
qed


lemma csv_writer_thread_run:
  "csv_writer_thread csv_file (finish (foldl collect state0 rs)) =
     (Some ((case csv_file of None \<Rightarrow> [header] | Some rows \<Rightarrow> rows) @ map csv_row rs), Exited)"
proof -
  let ?q = "butlast (finish (foldl collect state0 rs))"
  have f: "finish (foldl collect state0 rs) = ?q @ None # []"
    using finish_run [of rs] by simp
  have n: "None \<notin> set ?q" using finish_run [of rs] by simp
  have p: "payload ?q = map Some rs" using finish_run [of rs] by simp
  have w: "writer_loop g (finish (foldl collect state0 rs)) = (g @ map csv_row rs, Exited)" for g
    using writer_loop_sentinel [OF n, of g "[]"] f by (simp add: p map_filter_Some)
  show ?thesis
    by (cases csv_file) (simp_all add: csv_writer_thread_def w)
qed

lemma process_pdfs_run:
  "process_pdfs pl w tr sched fault root_path csv_file resume =
     \<lparr>store = Some ((case csv_file of None \<Rightarrow> [header] | Some rows \<Rightarrow> rows) @
                map csv_row (results pl w sched (submitted pl tr fault root_path csv_file resume))),
      writer = Exited,
      final_stats = stats (foldl collect state0
                (results pl w sched (submitted pl tr fault root_path csv_file resume))),
      log = snd (if resume then load_processed_csv pl (read_store fault csv_file) else ({}, []))\<rparr>"
  by (simp add: process_pdfs_def results_def submitted_def csv_writer_thread_run Let_def
      split: prod.splits)

subsection \<open>Discovery\<close>




subsection \<open>Every result reaches the store\<close>




subsection \<open>The header row\<close>










subsection \<open>Loading the resume index\<close>

lemma load_rows_fault:
  "load_rows pl fieldnames (map Item rows @ Raise e # later) acc =
     (fst (load_rows pl fieldnames (map Item rows) acc), Some e)"
  by (induction rows arbitrary: acc) (simp_all split: option.splits)

lemma load_rows_no_fault: "snd (load_rows pl fieldnames (map Item rows) acc) = None"
  by (induction rows arbitrary: acc) (simp_all split: option.splits)

lemma load_existing_fault:
  "load_processed_csv pl (Existing (map Item xs @ [Raise e])) =
     (case xs of [] \<Rightarrow> {} | fieldnames # rows \<Rightarrow> fst (load_rows pl fieldnames (map Item rows) {}),
      [(WARNING, load_failed e)])"
  by (cases xs) (simp_all add: load_processed_csv_def load_rows_fault)

lemma load_fault_log:
  "snd (load_processed_csv pl (read_store (Some (k, e)) (Some stored))) =
     [(WARNING, load_failed e)]"
  by (simp only: read_store.simps load_existing_fault snd_conv)

lemma load_fault_early:
  assumes "k \<le> 1"
  shows "fst (load_processed_csv pl (read_store (Some (k, e)) (Some stored))) = {}"
proof -
  define xs where "xs = take k stored"
  have len: "length xs \<le> 1"
    using assms by (simp add: xs_def)
  have "fst (load_processed_csv pl (Existing (map Item xs @ [Raise e]))) = {}"
  proof (cases xs)
    case Nil
    then show ?thesis
      using load_existing_fault [of pl "[]" e] by simp
  next
    case (Cons fieldnames rows)
    then have "rows = []" using len by simp
    then show ?thesis
      using Cons load_existing_fault [of pl "[fieldnames]" e] by simp
  qed
  then show ?thesis
    by (simp only: read_store.simps xs_def)
qed

text \<open>
  Claim C7, as stated, fails: when reading raises after some records were read, the
  resume index holds those records, so it is not empty and a discovered path is skipped.
\<close>

theorem load_failure_counterexample:
  "fst (load_processed_csv posix (read_store (Some (2, Exn ''line contains NUL''))
         (Some [header, [''/data/a.pdf'', ''3'', ''0.0'', ''S-S''], [[CHR 0x00]]]))) = {''/data/a.pdf''}
   \<and> fst (find_pdf_files posix data_tree ''/data'') = [''/data/a.pdf'', ''/data/b.PDF'']
   \<and> submitted posix data_tree (Some (2, Exn ''line contains NUL'')) ''/data''
         (Some [header, [''/data/a.pdf'', ''3'', ''0.0'', ''S-S''], [[CHR 0x00]]]) True = [''/data/b.PDF'']"
  by code_simp

text \<open>
  Claim C7, amended. A missing store gives the empty index and no log line. When reading
  an existing store raises, the load returns the index built from the rows read before
  the exception and logs one warning; the index is empty when the exception comes on
  opening or right after the header. The run goes to its end (the writer exits) with that
  warning as the load's only log line, and when the exception comes before the first
  record every discovered path is submitted.
\<close>

theorem load_failure_keeps_rows_read:
  "load_processed_csv pl Missing = ({}, [])
   \<and> load_processed_csv pl (Existing (Raise e # later)) = ({}, [(WARNING, load_failed e)])
   \<and> load_processed_csv pl (Existing (Item fieldnames # map Item rows @ Raise e # later)) =
       (fst (load_processed_csv pl (Existing (Item fieldnames # map Item rows))),
        [(WARNING, load_failed e)])
   \<and> load_processed_csv pl (Existing (Item fieldnames # Raise e # later)) =
       ({}, [(WARNING, load_failed e)])
   \<and> log (process_pdfs pl w tr sched (Some (k, e)) root_path (Some stored) True) =
       [(WARNING, load_failed e)]
   \<and> writer (process_pdfs pl w tr sched (Some (k, e)) root_path (Some stored) True) = Exited
   \<and> (k \<le> 1 \<longrightarrow>
        submitted pl tr (Some (k, e)) root_path (Some stored) True =
          fst (find_pdf_files pl tr root_path))"
proof -
  have a: "load_processed_csv pl (Existing (Item fieldnames # map Item rows @ Raise e # later)) =
       (fst (load_processed_csv pl (Existing (Item fieldnames # map Item rows))),
        [(WARNING, load_failed e)])"
  proof (cases "load_rows pl fieldnames (map Item rows) {}")
    case (Pair loaded x)
    then have "x = None"
      using load_rows_no_fault [of pl fieldnames rows "{}"] by simp
    then show ?thesis
      using Pair by (simp add: load_processed_csv_def load_rows_fault)
  qed
  have b: "load_processed_csv pl (Existing (Item fieldnames # Raise e # later)) =
       ({}, [(WARNING, load_failed e)])"
    by (simp add: load_processed_csv_def)
  have c: "log (process_pdfs pl w tr sched (Some (k, e)) root_path (Some stored) True) =
       [(WARNING, load_failed e)]"
    by (simp add: process_pdfs_run load_fault_log del: read_store.simps)
  have d: "k \<le> 1 \<longrightarrow>
        submitted pl tr (Some (k, e)) root_path (Some stored) True =
          fst (find_pdf_files pl tr root_path)"
    by (simp add: submitted_def pdf_gen_def load_fault_early del: read_store.simps)
  have m: "load_processed_csv pl Missing = ({}, [])"
    by (simp add: load_processed_csv_def)
  have r: "load_processed_csv pl (Existing (Raise e # later)) = ({}, [(WARNING, load_failed e)])"
    by (simp add: load_processed_csv_def)
  have x: "writer (process_pdfs pl w tr sched (Some (k, e)) root_path (Some stored) True) = Exited"
    by (simp add: process_pdfs_run)
  from m r a b c x d show ?thesis
    by blast
qed

theorem load_failure_keeps_rows_read_witness:
  "submitted posix data_tree (Some (1, Exn ''Permission denied'')) ''/data''
         (Some [header, [''/data/a.pdf'', ''3'', ''0.0'', ''S-S'']]) True =
     [''/data/a.pdf'', ''/data/b.PDF'']
   \<and> log (process_pdfs posix small_world data_tree [] (Some (1, Exn ''Permission denied''))
         ''/data'' (Some [header, [''/data/a.pdf'', ''3'', ''0.0'', ''S-S'']]) True) =
       [(WARNING, load_failed (Exn ''Permission denied''))]"
proof -
  have f: "fst (find_pdf_files posix data_tree ''/data'') = [''/data/a.pdf'', ''/data/b.PDF'']"
    by code_simp
  show ?thesis
    using load_failure_keeps_rows_read
      [of posix "Exn ''Permission denied''" "[]" "[]" "[]" small_world data_tree "[]" 1
        "''/data''" "[header, [''/data/a.pdf'', ''3'', ''0.0'', ''S-S'']]"]
    by (simp add: f)
qed

subsection \<open>A root that does not exist\<close>

lemma process_single_pdf_path_exists:
  "process_single_pdf pl (w\<lparr>path_exists := ex\<rparr>) = process_single_pdf pl w"
  by (rule ext) (simp add: process_single_pdf_def Let_def split: sum.splits)

lemma find_nothing:
  "find_stdout tr (path_str pl root_path) = [] \<Longrightarrow> find_pdf_files pl tr root_path = ([], {})"
  by (simp add: find_pdf_files_def)

text \<open>
  Claim C8, as stated, fails: \<^verbatim>\<open>pdf_processor.py\<close> returns from \<^verbatim>\<open>main\<close> normally, so the exit
  status is 0, and \<^verbatim>\<open>pdf_processor_v6.py\<close>, which does not check the root, creates the store
  with its header.
\<close>

theorem missing_root_counterexample:
  "\<not> path_exists nowhere (path_str posix ''/missing'')
   \<and> exit_status (raised (main_v1 posix nowhere data_tree_v1 [] ''/missing'' None 8)) = 0
   \<and> find_stdout data_tree (path_str posix ''/missing'') = []
   \<and> store (process_pdfs posix nowhere data_tree [] None ''/missing'' None True) = Some [header]"
  by code_simp

text \<open>
  Claim C8, amended. In \<^verbatim>\<open>pdf_processor.py\<close>, when the root does not exist, \<^verbatim>\<open>main\<close> logs one
  error naming the path and returns: the store is untouched, no exception is raised and
  the exit status is 0. \<^verbatim>\<open>pdf_processor_v6.py\<close> never asks whether the root exists; when the
  traversal prints nothing the run goes to its end with nothing processed, and the store is
  the header alone if it did not exist and unchanged if it did.
\<close>

theorem missing_root:
  "(\<not> path_exists w (path_str pl root_path) \<longrightarrow>
      main_v1 pl w tr1 sched root_path output_csv workers =
        \<lparr>store_v1 = output_csv, log_v1 = [(ERROR, path_missing (path_str pl root_path))],
         raised = None\<rparr>
      \<and> exit_status (raised (main_v1 pl w tr1 sched root_path output_csv workers)) = 0)
   \<and> process_pdfs pl (w\<lparr>path_exists := ex\<rparr>) tr sched fault root_path csv_file resume =
       process_pdfs pl w tr sched fault root_path csv_file resume
   \<and> (find_stdout tr (path_str pl root_path) = [] \<longrightarrow>
        store (process_pdfs pl w tr sched fault root_path csv_file resume) =
          Some (case csv_file of None \<Rightarrow> [header] | Some rows \<Rightarrow> rows)
        \<and> writer (process_pdfs pl w tr sched fault root_path csv_file resume) = Exited
        \<and> processed (final_stats (process_pdfs pl w tr sched fault root_path csv_file resume)) = 0)"
proof -
  have a: "\<not> path_exists w (path_str pl root_path) \<longrightarrow>
      main_v1 pl w tr1 sched root_path output_csv workers =
        \<lparr>store_v1 = output_csv, log_v1 = [(ERROR, path_missing (path_str pl root_path))],
         raised = None\<rparr>
      \<and> exit_status (raised (main_v1 pl w tr1 sched root_path output_csv workers)) = 0"
    by (simp add: main_v1_def exit_status_def)
  have b: "process_pdfs pl (w\<lparr>path_exists := ex\<rparr>) tr sched fault root_path csv_file resume =
       process_pdfs pl w tr sched fault root_path csv_file resume"
    by (simp add: process_pdfs_run results_def futures_def process_single_pdf_path_exists)
  have c: "store (process_pdfs pl w tr sched fault root_path csv_file resume) =
          Some (case csv_file of None \<Rightarrow> [header] | Some rows \<Rightarrow> rows)
        \<and> writer (process_pdfs pl w tr sched fault root_path csv_file resume) = Exited
        \<and> processed (final_stats (process_pdfs pl w tr sched fault root_path csv_file resume)) = 0"
    if "find_stdout tr (path_str pl root_path) = []"
  proof -
    have "submitted pl tr fault root_path csv_file resume = []"
      using find_nothing [OF that] by (simp add: submitted_def pdf_gen_def)
    then show ?thesis
      by (simp add: process_pdfs_run results_def futures_def state0_def)
  qed
  from a b c show ?thesis
    by blast
qed

theorem missing_root_witness:
  "main_v1 posix nowhere data_tree_v1 [] ''/missing'' (Some [header_v1, old_row]) 8 =
     \<lparr>store_v1 = Some [header_v1, old_row], log_v1 = [(ERROR, path_missing ''/missing'')],
      raised = None\<rparr>
   \<and> store (process_pdfs posix nowhere data_tree [] None ''/missing'' None True) = Some [header]
   \<and> processed (final_stats (process_pdfs posix nowhere data_tree [] None ''/missing'' None True)) = 0"
proof -
  have p: "path_str posix ''/missing'' = ''/missing''"
    by code_simp
  have h1: "\<not> path_exists nowhere (path_str posix ''/missing'')"
    by (simp add: nowhere_def)
  have h2: "find_stdout data_tree (path_str posix ''/missing'') = []"
    by (simp add: p data_tree_def)
  show ?thesis
    using missing_root [of nowhere posix "''/missing''" data_tree_v1 "[]"
        "Some [header_v1, old_row]" 8 "\<lambda>p. False" data_tree None None True] h1 h2
    by (simp add: p)
qed

subsection \<open>What discovery and submission keep in memory\<close>




subsection \<open>Resume when the root is the current directory\<close>

text \<open>
  Claim C2 at the root \<^verbatim>\<open>.\<close> on POSIX. The traversal prints \<^verbatim>\<open>./a.pdf\<close>; the worker stores
  \<^verbatim>\<open>str(Path("./a.pdf"))\<close>, which is \<^verbatim>\<open>a.pdf\<close>. The second run loads \<^verbatim>\<open>a.pdf\<close> into the resume
  index, compares it with \<^verbatim>\<open>./a.pdf\<close>, submits the file again and appends a second row for it.
\<close>

theorem resume_from_dot_duplicates:
  "fst (find_pdf_files posix cwd_tree ''.'') = [''./a.pdf'']
   \<and> store (process_pdfs posix small_world cwd_tree [] None ''.'' None True) =
       Some [header, [''a.pdf'', ''3'', ''0.0'', ''S-S'']]
   \<and> fst (load_processed_csv posix (read_store None
         (Some [header, [''a.pdf'', ''3'', ''0.0'', ''S-S'']]))) = {''a.pdf''}
   \<and> submitted posix cwd_tree None ''.'' (Some [header, [''a.pdf'', ''3'', ''0.0'', ''S-S'']]) True =
       [''./a.pdf'']
   \<and> store (process_pdfs posix small_world cwd_tree [] None ''.''
         (Some [header, [''a.pdf'', ''3'', ''0.0'', ''S-S'']]) True) =
       Some [header, [''a.pdf'', ''3'', ''0.0'', ''S-S''], [''a.pdf'', ''3'', ''0.0'', ''S-S'']]"
  by code_simp

subsection \<open>The counters balance\<close>

text \<open>
  Claim C10. After any number of results the values of \<^verbatim>\<open>category_counts\<close> add up to
  \<^verbatim>\<open>processed\<close>, which is the number of results handled; so do the counters a run of
  \<^verbatim>\<open>process_pdfs\<close> ends with. A category outside the five preset keys gets a counter of
  its own.
\<close>

theorem category_counts_sum_to_processed:
  "sum_list (map snd (category_counts (stats (foldl collect state0 rs)))) =
     processed (stats (foldl collect state0 rs))
   \<and> processed (stats (foldl collect state0 rs)) = int (length rs)
   \<and> sum_list (map snd (category_counts
         (final_stats (process_pdfs pl w tr sched fault root_path csv_file resume)))) =
       processed (final_stats (process_pdfs pl w tr sched fault root_path csv_file resume))"
proof -
  have a: "sum_list (map snd (category_counts (stats (foldl collect state0 rs)))) =
     processed (stats (foldl collect state0 rs))" for rs
    using state0_balance by (rule foldl_collect_balance)
  have b: "processed (stats (foldl collect state0 rs)) = int (length rs)"
    by (simp add: foldl_collect_processed state0_def)
  show ?thesis
    using a b by (simp add: process_pdfs_final_stats)
qed

theorem category_counts_sum_to_processed_witness:
  "sum_list (map snd (category_counts (stats (foldl collect state0
      [\<lparr>file_path = ''/data/a.pdf'', page_count = 3, file_size_mb = 0, category = ''S-S''\<rparr>,
       \<lparr>file_path = ''/data/b.pdf'', page_count = 0, file_size_mb = 0, category = ''other''\<rparr>])))) = 2"
  using category_counts_sum_to_processed
    [of "[\<lparr>file_path = ''/data/a.pdf'', page_count = 3, file_size_mb = 0, category = ''S-S''\<rparr>,
          \<lparr>file_path = ''/data/b.pdf'', page_count = 0, file_size_mb = 0, category = ''other''\<rparr>]"]
  by simp

end
